theory Spec2Isabelle
  imports Complex_Main
begin

section \<open>The softener sizing calculator\<close>

text \<open>
  The calculator is the \<^verbatim>\<open>calculated\<close> closure of the \<^verbatim>\<open>App\<close> component: it parses nine
  text fields of the form, derives two more numbers and three flags, and then runs twelve
  steps, each a nullable number together with (from step 5 on) a nullable message.

  JavaScript's \<^verbatim>\<open>number | null\<close> is \<open>real option\<close> and \<^verbatim>\<open>string | null\<close> is
  \<open>string option\<close>, with \<open>None\<close> for \<^verbatim>\<open>null\<close>. Numbers are exact reals here: the
  comparisons that gate the steps are made on parsed inputs and are exact in the program as
  well, while the rounding, overflow and underflow of IEEE doubles in the computed values
  are outside this model.
\<close>

subsection \<open>Form values and parsing\<close>

datatype HardnessUnit = PpmAsCaCO3 | GrainsPerGallon

datatype SaltDose = Dose6 | Dose8 | Dose10 | Dose12 | Dose15

text \<open>The numeric value of the literal type \<^verbatim>\<open>6 | 8 | 10 | 12 | 15\<close>.\<close>

fun doseValue :: "SaltDose \<Rightarrow> real" where
  "doseValue Dose6 = 6"
| "doseValue Dose8 = 8"
| "doseValue Dose10 = 10"
| "doseValue Dose12 = 12"
| "doseValue Dose15 = 15"

fun CAPACITY_BY_SALT_DOSE :: "SaltDose \<Rightarrow> real" where
  "CAPACITY_BY_SALT_DOSE Dose6 = 20000"
| "CAPACITY_BY_SALT_DOSE Dose8 = 22500"
| "CAPACITY_BY_SALT_DOSE Dose10 = 25000"
| "CAPACITY_BY_SALT_DOSE Dose12 = 27500"
| "CAPACITY_BY_SALT_DOSE Dose15 = 30000"

record FormValues =
  form_hardnessValue :: string
  form_hardnessUnits :: HardnessUnit
  form_useCompensation :: bool
  form_ironPpm :: string
  form_manganesePpm :: string
  form_gallonsPerDay :: string
  form_daysBetweenRegen :: string
  form_reservePercent :: string
  form_saltDose :: SaltDose
  form_overrideCapacity :: bool
  form_overrideCapacityValue :: string
  form_saltDissolutionFactor :: string
  form_peakFlowGpm :: string
  form_serviceLoadingRate :: string
  form_backwashRate :: string

text \<open>
  The result of the built-in \<^verbatim>\<open>Number(value)\<close>: a finite number, an infinity or NaN. The
  conversion itself is a parameter of \<open>parseInputNumber\<close>.
\<close>

datatype jsnumber = Finite real | PosInfinity | NegInfinity | NaN

fun isFinite :: "jsnumber \<Rightarrow> bool" where
  "isFinite (Finite x) = True"
| "isFinite PosInfinity = False"
| "isFinite NegInfinity = False"
| "isFinite NaN = False"

text \<open>
  \<^verbatim>\<open>String.prototype.trim\<close> on byte strings: the white space removed is the ASCII part of
  ECMAScript's white space and line terminators (TAB, LF, VT, FF, CR, SP).
\<close>

definition isWhiteSpace :: "char \<Rightarrow> bool" where
  "isWhiteSpace c = (c \<in> set [CHR 0x09, CHR 0x0A, CHR 0x0B, CHR 0x0C, CHR 0x0D, CHR 0x20])"

definition trim :: "string \<Rightarrow> string" where
  "trim s = rev (dropWhile isWhiteSpace (rev (dropWhile isWhiteSpace s)))"

text \<open>
  \<^verbatim>\<open>parseInputNumber\<close>: a blank string is \<^verbatim>\<open>null\<close>, and so is a string whose conversion is
  not finite. \<open>toNumber\<close> stands for the built-in \<^verbatim>\<open>Number\<close>.
\<close>

definition parseInputNumber :: "(string \<Rightarrow> jsnumber) \<Rightarrow> string \<Rightarrow> real option" where
  "parseInputNumber toNumber v =
     (if trim v = [] then None
      else (let parsed = toNumber v in
            if isFinite parsed then (case parsed of Finite x \<Rightarrow> Some x | _ \<Rightarrow> None)
            else None))"

definition isPositive :: "real option \<Rightarrow> bool" where
  "isPositive v = (case v of None \<Rightarrow> False | Some x \<Rightarrow> x > 0)"

text \<open>
  The input record of the twelve steps: the nine parsed constants at the head of
  \<^verbatim>\<open>calculated\<close>, the two parsed compensation fields before their clamping, and the four
  form fields that are read as they are.
\<close>

record Inputs =
  hardnessValue :: "real option"
  hardnessUnits :: HardnessUnit
  useCompensation :: bool
  ironPpmParsed :: "real option"
  manganesePpmParsed :: "real option"
  gallonsPerDay :: "real option"
  daysBetweenRegen :: "real option"
  reservePercent :: "real option"
  saltDose :: SaltDose
  overrideCapacity :: bool
  overrideCapacityValue :: "real option"
  saltDissolutionFactor :: "real option"
  peakFlowGpm :: "real option"
  serviceLoadingRate :: "real option"
  backwashRate :: "real option"

definition parseForm :: "(string \<Rightarrow> jsnumber) \<Rightarrow> FormValues \<Rightarrow> Inputs" where
  "parseForm toNumber form =
     \<lparr> hardnessValue = parseInputNumber toNumber (form_hardnessValue form),
       hardnessUnits = form_hardnessUnits form,
       useCompensation = form_useCompensation form,
       ironPpmParsed = parseInputNumber toNumber (form_ironPpm form),
       manganesePpmParsed = parseInputNumber toNumber (form_manganesePpm form),
       gallonsPerDay = parseInputNumber toNumber (form_gallonsPerDay form),
       daysBetweenRegen = parseInputNumber toNumber (form_daysBetweenRegen form),
       reservePercent = parseInputNumber toNumber (form_reservePercent form),
       saltDose = form_saltDose form,
       overrideCapacity = form_overrideCapacity form,
       overrideCapacityValue = parseInputNumber toNumber (form_overrideCapacityValue form),
       saltDissolutionFactor = parseInputNumber toNumber (form_saltDissolutionFactor form),
       peakFlowGpm = parseInputNumber toNumber (form_peakFlowGpm form),
       serviceLoadingRate = parseInputNumber toNumber (form_serviceLoadingRate form),
       backwashRate = parseInputNumber toNumber (form_backwashRate form) \<rparr>"

subsection \<open>Derived inputs and the two gates\<close>

text \<open>\<^verbatim>\<open>x ?? 0\<close>: the value, or 0 for \<^verbatim>\<open>null\<close>.\<close>

definition orZero :: "real option \<Rightarrow> real" where
  "orZero v = (case v of None \<Rightarrow> 0 | Some x \<Rightarrow> x)"

definition ironPpm :: "Inputs \<Rightarrow> real" where
  "ironPpm i = (if useCompensation i then max 0 (orZero (ironPpmParsed i)) else 0)"

definition manganesePpm :: "Inputs \<Rightarrow> real" where
  "manganesePpm i = (if useCompensation i then max 0 (orZero (manganesePpmParsed i)) else 0)"

definition requiredInputMissing :: "Inputs \<Rightarrow> bool" where
  "requiredInputMissing i =
     (\<not> isPositive (hardnessValue i) \<or>
      \<not> isPositive (gallonsPerDay i) \<or>
      \<not> isPositive (daysBetweenRegen i) \<or>
      \<not> isPositive (Some (doseValue (saltDose i))) \<or>
      \<not> isPositive (peakFlowGpm i) \<or>
      \<not> isPositive (serviceLoadingRate i))"

definition reserveTooHigh :: "Inputs \<Rightarrow> bool" where
  "reserveTooHigh i = (case reservePercent i of None \<Rightarrow> False | Some r \<Rightarrow> r \<ge> 100)"

definition reserveBlockText :: string where
  "reserveBlockText =
     ''Reserve Capacity must be below 100%. Step 5 and all later steps are blocked.''"

definition reserveBlockMessage :: "Inputs \<Rightarrow> string option" where
  "reserveBlockMessage i = (if reserveTooHigh i then Some reserveBlockText else None)"

definition serviceLoadingText :: string where
  "serviceLoadingText =
     ''Service Loading Rate must be greater than 0. Steps 10 through 12 are blocked.''"

definition serviceLoadingError :: "Inputs \<Rightarrow> string option" where
  "serviceLoadingError i =
     (case serviceLoadingRate i of
        None \<Rightarrow> None
      | Some s \<Rightarrow> if s \<le> 0 then Some serviceLoadingText else None)"

text \<open>
  JavaScript truthiness of a \<^verbatim>\<open>string | null\<close>, as tested by \<^verbatim>\<open>!reserveBlockMessage\<close>
  and \<^verbatim>\<open>step10Message\<close>: \<^verbatim>\<open>null\<close> and the empty string are falsy.
\<close>

definition truthy :: "string option \<Rightarrow> bool" where
  "truthy m = (case m of None \<Rightarrow> False | Some s \<Rightarrow> s \<noteq> [])"

subsection \<open>Steps 1 to 4\<close>

definition step1HardnessGpg :: "Inputs \<Rightarrow> real option" where
  "step1HardnessGpg i =
     (case hardnessValue i of
        None \<Rightarrow> None
      | Some h \<Rightarrow>
          if isPositive (Some h)
          then Some (if hardnessUnits i = PpmAsCaCO3 then h / 17.1 else h)
          else None)"

definition step2DesignHardnessGpg :: "Inputs \<Rightarrow> real option" where
  "step2DesignHardnessGpg i =
     (case step1HardnessGpg i of
        None \<Rightarrow> None
      | Some s1 \<Rightarrow>
          Some (if useCompensation i then s1 + 4 * (ironPpm i + manganesePpm i) else s1))"

definition step3GrainsPerDay :: "Inputs \<Rightarrow> real option" where
  "step3GrainsPerDay i =
     (case (step2DesignHardnessGpg i, gallonsPerDay i) of
        (Some s2, Some g) \<Rightarrow> if isPositive (Some g) then Some (s2 * g) else None
      | _ \<Rightarrow> None)"

definition step4RequiredGrainsPerRun :: "Inputs \<Rightarrow> real option" where
  "step4RequiredGrainsPerRun i =
     (case (step3GrainsPerDay i, daysBetweenRegen i) of
        (Some s3, Some d) \<Rightarrow> if isPositive (Some d) then Some (s3 * d) else None
      | _ \<Rightarrow> None)"

subsection \<open>Steps 5 to 9: capacity\<close>

text \<open>
  From step 5 on each step is a block that assigns a value and a message; the block is a
  function to the pair, and the two variables are its projections. A test
  \<^verbatim>\<open>x !== null\<close> that guards a use of \<open>x\<close> is a \<open>case\<close> on \<open>x\<close>. In the blocks with an
  \<^verbatim>\<open>else if\<close> the message tested there still holds the reserve-block message, so
  \<^verbatim>\<open>!reserveBlockMessage && !step7Message\<close> tests the same message twice.
\<close>

definition step5 :: "Inputs \<Rightarrow> real option \<times> string option" where
  "step5 i =
     (case step4RequiredGrainsPerRun i of
        Some s4 \<Rightarrow>
          if \<not> truthy (reserveBlockMessage i) then
            (case reservePercent i of
               None \<Rightarrow> (None, Some ''Enter Reserve Capacity to calculate Step 5.'')
             | Some r \<Rightarrow>
                 if r < 0 then (None, Some ''Reserve Capacity cannot be negative.'')
                 else (Some (s4 / (1 - r / 100)), reserveBlockMessage i))
          else (None, reserveBlockMessage i)
      | None \<Rightarrow> (None, reserveBlockMessage i))"

definition step5DesignGrainsPerRun :: "Inputs \<Rightarrow> real option" where
  "step5DesignGrainsPerRun i = fst (step5 i)"

definition step5Message :: "Inputs \<Rightarrow> string option" where
  "step5Message i = snd (step5 i)"

definition step6 :: "Inputs \<Rightarrow> real option \<times> string option" where
  "step6 i =
     (if \<not> truthy (reserveBlockMessage i) then
        (if overrideCapacity i then
           (case overrideCapacityValue i of
              Some c \<Rightarrow>
                if isPositive (Some c) then (Some c, reserveBlockMessage i)
                else (None, Some ''Override capacity per cubic foot must be greater than 0.'')
            | None \<Rightarrow> (None, Some ''Override capacity per cubic foot must be greater than 0.''))
         else (Some (CAPACITY_BY_SALT_DOSE (saltDose i)), reserveBlockMessage i))
      else (None, reserveBlockMessage i))"

definition step6CapacityPerFt3 :: "Inputs \<Rightarrow> real option" where
  "step6CapacityPerFt3 i = fst (step6 i)"

definition step6Message :: "Inputs \<Rightarrow> string option" where
  "step6Message i = snd (step6 i)"

definition step7 :: "Inputs \<Rightarrow> real option \<times> string option" where
  "step7 i =
     (case (step5DesignGrainsPerRun i, step6CapacityPerFt3 i) of
        (Some s5, Some s6) \<Rightarrow>
          if \<not> truthy (reserveBlockMessage i) then (Some (s5 / s6), None)
          else (None, reserveBlockMessage i)
      | _ \<Rightarrow>
          if \<not> truthy (reserveBlockMessage i) \<and> \<not> truthy (reserveBlockMessage i)
          then (None, Some ''Complete Steps 5 and 6 to calculate resin volume.'')
          else (None, reserveBlockMessage i))"

definition step7ResinFt3 :: "Inputs \<Rightarrow> real option" where
  "step7ResinFt3 i = fst (step7 i)"

definition step7Message :: "Inputs \<Rightarrow> string option" where
  "step7Message i = snd (step7 i)"

definition step8 :: "Inputs \<Rightarrow> real option \<times> string option" where
  "step8 i =
     (case step7ResinFt3 i of
        Some s7 \<Rightarrow>
          if \<not> truthy (reserveBlockMessage i) then (Some (s7 * doseValue (saltDose i)), None)
          else (None, reserveBlockMessage i)
      | None \<Rightarrow>
          if \<not> truthy (reserveBlockMessage i) \<and> \<not> truthy (reserveBlockMessage i)
          then (None, Some ''Complete Step 7 to calculate salt per regeneration.'')
          else (None, reserveBlockMessage i))"

definition step8SaltLbsPerRegen :: "Inputs \<Rightarrow> real option" where
  "step8SaltLbsPerRegen i = fst (step8 i)"

definition step8Message :: "Inputs \<Rightarrow> string option" where
  "step8Message i = snd (step8 i)"

definition step9 :: "Inputs \<Rightarrow> real option \<times> string option" where
  "step9 i =
     (case step8SaltLbsPerRegen i of
        Some s8 \<Rightarrow>
          if \<not> truthy (reserveBlockMessage i) then
            (case saltDissolutionFactor i of
               Some f \<Rightarrow>
                 if isPositive (Some f) then (Some (s8 / f), None)
                 else (None, Some ''Salt Dissolution Factor must be greater than 0.'')
             | None \<Rightarrow> (None, Some ''Salt Dissolution Factor must be greater than 0.''))
          else (None, reserveBlockMessage i)
      | None \<Rightarrow>
          if \<not> truthy (reserveBlockMessage i) \<and> \<not> truthy (reserveBlockMessage i)
          then (None, Some ''Complete Step 8 to calculate brine refill water.'')
          else (None, reserveBlockMessage i))"

definition step9BrineWaterGallons :: "Inputs \<Rightarrow> real option" where
  "step9BrineWaterGallons i = fst (step9 i)"

definition step9Message :: "Inputs \<Rightarrow> string option" where
  "step9Message i = snd (step9 i)"

subsection \<open>Steps 10 to 12: flow\<close>

definition step10 :: "Inputs \<Rightarrow> real option \<times> string option" where
  "step10 i =
     (if \<not> truthy (reserveBlockMessage i) then
        (case peakFlowGpm i of
           None \<Rightarrow> (None, Some ''Peak Flow Rate must be greater than 0.'')
         | Some p \<Rightarrow>
             if \<not> isPositive (Some p) then (None, Some ''Peak Flow Rate must be greater than 0.'')
             else
               (case serviceLoadingRate i of
                  None \<Rightarrow>
                    (None, Some ''Service Loading Rate must be greater than 0. Steps 10 through 12 are blocked.'')
                | Some s \<Rightarrow>
                    if \<not> isPositive (Some s) then
                      (None, Some ''Service Loading Rate must be greater than 0. Steps 10 through 12 are blocked.'')
                    else (Some (p / s), None)))
      else (None, reserveBlockMessage i))"

definition step10BedAreaFt2 :: "Inputs \<Rightarrow> real option" where
  "step10BedAreaFt2 i = fst (step10 i)"

definition step10Message :: "Inputs \<Rightarrow> string option" where
  "step10Message i = snd (step10 i)"

text \<open>Step 11 assigns the diameter in feet, the diameter in inches and the message.\<close>

definition step11 :: "Inputs \<Rightarrow> real option \<times> real option \<times> string option" where
  "step11 i =
     (case step10BedAreaFt2 i of
        Some s10 \<Rightarrow>
          if \<not> truthy (reserveBlockMessage i) then
            (Some (2 * sqrt (s10 / pi)), Some (2 * sqrt (s10 / pi) * 12), None)
          else (None, None, reserveBlockMessage i)
      | None \<Rightarrow>
          if \<not> truthy (reserveBlockMessage i) \<and> truthy (step10Message i)
          then (None, None, step10Message i)
          else (None, None, reserveBlockMessage i))"

definition step11DiameterFt :: "Inputs \<Rightarrow> real option" where
  "step11DiameterFt i = fst (step11 i)"

definition step11DiameterIn :: "Inputs \<Rightarrow> real option" where
  "step11DiameterIn i = fst (snd (step11 i))"

definition step11Message :: "Inputs \<Rightarrow> string option" where
  "step11Message i = snd (snd (step11 i))"

definition step12 :: "Inputs \<Rightarrow> real option \<times> string option" where
  "step12 i =
     (case step10BedAreaFt2 i of
        Some s10 \<Rightarrow>
          if \<not> truthy (reserveBlockMessage i) then
            (case backwashRate i of
               Some b \<Rightarrow>
                 if isPositive (Some b) then (Some (s10 * b), None)
                 else (None, Some ''Backwash Rate must be greater than 0.'')
             | None \<Rightarrow> (None, Some ''Backwash Rate must be greater than 0.''))
          else (None, reserveBlockMessage i)
      | None \<Rightarrow>
          if \<not> truthy (reserveBlockMessage i) \<and> truthy (step10Message i)
          then (None, step10Message i)
          else (None, reserveBlockMessage i))"

definition step12BackwashFlowGpm :: "Inputs \<Rightarrow> real option" where
  "step12BackwashFlowGpm i = fst (step12 i)"

definition step12Message :: "Inputs \<Rightarrow> string option" where
  "step12Message i = snd (step12 i)"

subsection \<open>The result record\<close>

record Calculated =
  res_requiredInputMissing :: bool
  res_reserveTooHigh :: bool
  res_serviceLoadingError :: "string option"
  res_step1HardnessGpg :: "real option"
  res_step2DesignHardnessGpg :: "real option"
  res_step3GrainsPerDay :: "real option"
  res_step4RequiredGrainsPerRun :: "real option"
  res_step5DesignGrainsPerRun :: "real option"
  res_step5Message :: "string option"
  res_step6CapacityPerFt3 :: "real option"
  res_step6Message :: "string option"
  res_step7ResinFt3 :: "real option"
  res_step7Message :: "string option"
  res_step8SaltLbsPerRegen :: "real option"
  res_step8Message :: "string option"
  res_step9BrineWaterGallons :: "real option"
  res_step9Message :: "string option"
  res_step10BedAreaFt2 :: "real option"
  res_step10Message :: "string option"
  res_step11DiameterFt :: "real option"
  res_step11DiameterIn :: "real option"
  res_step11Message :: "string option"
  res_step12BackwashFlowGpm :: "real option"
  res_step12Message :: "string option"

definition steps :: "Inputs \<Rightarrow> Calculated" where
  "steps i =
     \<lparr> res_requiredInputMissing = requiredInputMissing i,
       res_reserveTooHigh = reserveTooHigh i,
       res_serviceLoadingError = serviceLoadingError i,
       res_step1HardnessGpg = step1HardnessGpg i,
       res_step2DesignHardnessGpg = step2DesignHardnessGpg i,
       res_step3GrainsPerDay = step3GrainsPerDay i,
       res_step4RequiredGrainsPerRun = step4RequiredGrainsPerRun i,
       res_step5DesignGrainsPerRun = step5DesignGrainsPerRun i,
       res_step5Message = step5Message i,
       res_step6CapacityPerFt3 = step6CapacityPerFt3 i,
       res_step6Message = step6Message i,
       res_step7ResinFt3 = step7ResinFt3 i,
       res_step7Message = step7Message i,
       res_step8SaltLbsPerRegen = step8SaltLbsPerRegen i,
       res_step8Message = step8Message i,
       res_step9BrineWaterGallons = step9BrineWaterGallons i,
       res_step9Message = step9Message i,
       res_step10BedAreaFt2 = step10BedAreaFt2 i,
       res_step10Message = step10Message i,
       res_step11DiameterFt = step11DiameterFt i,
       res_step11DiameterIn = step11DiameterIn i,
       res_step11Message = step11Message i,
       res_step12BackwashFlowGpm = step12BackwashFlowGpm i,
       res_step12Message = step12Message i \<rparr>"

definition calculated :: "(string \<Rightarrow> jsnumber) \<Rightarrow> FormValues \<Rightarrow> Calculated" where
  "calculated toNumber form = steps (parseForm toNumber form)"

subsection \<open>Concrete input records\<close>

text \<open>
  Scenario 1 of the specification: 300 ppm hardness, no compensation, 10000 gallons per day,
  2 days between regenerations, 15 percent reserve, salt dose 8, peak flow 50 gpm, service
  loading and backwash rate 7, dissolution factor 3. The fields the scenario does not name
  have their default form values.
\<close>

definition scenario1 :: Inputs where
  "scenario1 =
     \<lparr> hardnessValue = Some 300, hardnessUnits = PpmAsCaCO3, useCompensation = False,
       ironPpmParsed = Some 0, manganesePpmParsed = Some 0,
       gallonsPerDay = Some 10000, daysBetweenRegen = Some 2, reservePercent = Some 15,
       saltDose = Dose8, overrideCapacity = False, overrideCapacityValue = None,
       saltDissolutionFactor = Some 3, peakFlowGpm = Some 50, serviceLoadingRate = Some 7,
       backwashRate = Some 7 \<rparr>"

text \<open>Scenario 3: scenario 1 with a service loading rate of 0.\<close>

definition scenario3 :: Inputs where
  "scenario3 = scenario1\<lparr>serviceLoadingRate := Some 0\<rparr>"

text \<open>The record of a form in which every text field is blank.\<close>

definition blankInputs :: Inputs where
  "blankInputs =
     \<lparr> hardnessValue = None, hardnessUnits = PpmAsCaCO3, useCompensation = False,
       ironPpmParsed = None, manganesePpmParsed = None,
       gallonsPerDay = None, daysBetweenRegen = None, reservePercent = None,
       saltDose = Dose8, overrideCapacity = False, overrideCapacityValue = None,
       saltDissolutionFactor = None, peakFlowGpm = None, serviceLoadingRate = None,
       backwashRate = None \<rparr>"

text \<open>
  Agreement of a step value with a printed number: the value is present and lies within
  \<open>tol\<close> of \<open>a\<close>. With \<open>tol\<close> half a unit of the last printed digit, \<open>a\<close> is the value
  rounded to that digit.
\<close>

definition approximately :: "real option \<Rightarrow> real \<Rightarrow> real \<Rightarrow> bool" where
  "approximately v a tol = (case v of None \<Rightarrow> False | Some x \<Rightarrow> \<bar>x - a\<bar> \<le> tol)"

text \<open>
  The Maclaurin polynomial of the cosine of degree 10, used to bound \<open>pi\<close> for the
  diameter of step 11.
\<close>

definition cosPoly :: "real \<Rightarrow> real" where
  "cosPoly x = 1 - x^2 / 2 + x^4 / 24 - x^6 / 720 + x^8 / 40320 - x^10 / 3628800"

section \<open>Properties\<close>

subsection \<open>Parsing\<close>

lemma parseInputNumber_blank: "trim v = [] \<Longrightarrow> parseInputNumber toNumber v = None"
  by (simp add: parseInputNumber_def)

lemma parseInputNumber_Some:
  "parseInputNumber toNumber v = Some x \<longleftrightarrow> trim v \<noteq> [] \<and> toNumber v = Finite x"
  by (cases "toNumber v") (auto simp: parseInputNumber_def)

lemma isPositive_Some [simp]: "isPositive (Some x) \<longleftrightarrow> 0 < x"
  by (simp add: isPositive_def)

lemma isPositive_None [simp]: "\<not> isPositive None"
  by (simp add: isPositive_def)

text \<open>
  The result record of \<^verbatim>\<open>calculated\<close> holds the step functions of the parsed form, so
  every property of a step below is a property of the corresponding field.
\<close>

lemma calculated_fields:
  "res_requiredInputMissing (calculated toNumber form) =
     requiredInputMissing (parseForm toNumber form)"
  "res_reserveTooHigh (calculated toNumber form) = reserveTooHigh (parseForm toNumber form)"
  "res_serviceLoadingError (calculated toNumber form) =
     serviceLoadingError (parseForm toNumber form)"
  "res_step1HardnessGpg (calculated toNumber form) = step1HardnessGpg (parseForm toNumber form)"
  "res_step2DesignHardnessGpg (calculated toNumber form) =
     step2DesignHardnessGpg (parseForm toNumber form)"
  "res_step3GrainsPerDay (calculated toNumber form) = step3GrainsPerDay (parseForm toNumber form)"
  "res_step4RequiredGrainsPerRun (calculated toNumber form) =
     step4RequiredGrainsPerRun (parseForm toNumber form)"
  "res_step5DesignGrainsPerRun (calculated toNumber form) =
     step5DesignGrainsPerRun (parseForm toNumber form)"
  "res_step5Message (calculated toNumber form) = step5Message (parseForm toNumber form)"
  "res_step6CapacityPerFt3 (calculated toNumber form) =
     step6CapacityPerFt3 (parseForm toNumber form)"
  "res_step6Message (calculated toNumber form) = step6Message (parseForm toNumber form)"
  "res_step7ResinFt3 (calculated toNumber form) = step7ResinFt3 (parseForm toNumber form)"
  "res_step7Message (calculated toNumber form) = step7Message (parseForm toNumber form)"
  "res_step8SaltLbsPerRegen (calculated toNumber form) =
     step8SaltLbsPerRegen (parseForm toNumber form)"
  "res_step8Message (calculated toNumber form) = step8Message (parseForm toNumber form)"
  "res_step9BrineWaterGallons (calculated toNumber form) =
     step9BrineWaterGallons (parseForm toNumber form)"
  "res_step9Message (calculated toNumber form) = step9Message (parseForm toNumber form)"
  "res_step10BedAreaFt2 (calculated toNumber form) = step10BedAreaFt2 (parseForm toNumber form)"
  "res_step10Message (calculated toNumber form) = step10Message (parseForm toNumber form)"
  "res_step11DiameterFt (calculated toNumber form) = step11DiameterFt (parseForm toNumber form)"
  "res_step11DiameterIn (calculated toNumber form) = step11DiameterIn (parseForm toNumber form)"
  "res_step11Message (calculated toNumber form) = step11Message (parseForm toNumber form)"
  "res_step12BackwashFlowGpm (calculated toNumber form) =
     step12BackwashFlowGpm (parseForm toNumber form)"
  "res_step12Message (calculated toNumber form) = step12Message (parseForm toNumber form)"
  by (simp_all add: calculated_def steps_def)

lemma parseForm_reservePercent:
  "reservePercent (parseForm toNumber form) = parseInputNumber toNumber (form_reservePercent form)"
  by (simp add: parseForm_def)

subsection \<open>The reserve gate\<close>

lemma truthy_None [simp]: "\<not> truthy None"
  by (simp add: truthy_def)

lemma truthy_reserveBlockText [simp]: "truthy (Some reserveBlockText)"
  by (simp add: truthy_def reserveBlockText_def)

lemma truthy_serviceLoadingText [simp]: "truthy (Some serviceLoadingText)"
  by (simp add: truthy_def serviceLoadingText_def)

lemma truthy_reserveBlockMessage [simp]: "truthy (reserveBlockMessage i) = reserveTooHigh i"
  by (simp add: reserveBlockMessage_def)

lemma rbm_high: "reserveTooHigh i \<Longrightarrow> reserveBlockMessage i = Some reserveBlockText"
  by (simp add: reserveBlockMessage_def)

lemma rbm_low: "\<not> reserveTooHigh i \<Longrightarrow> reserveBlockMessage i = None"
  by (simp add: reserveBlockMessage_def)

lemma blocked5: "reserveTooHigh i \<Longrightarrow> step5 i = (None, Some reserveBlockText)"
  by (simp add: step5_def rbm_high split: option.splits)

lemma blocked6: "reserveTooHigh i \<Longrightarrow> step6 i = (None, Some reserveBlockText)"
  by (simp add: step6_def rbm_high)

lemma blocked7: "reserveTooHigh i \<Longrightarrow> step7 i = (None, Some reserveBlockText)"
  by (simp add: step7_def rbm_high split: option.splits)

lemma blocked8: "reserveTooHigh i \<Longrightarrow> step8 i = (None, Some reserveBlockText)"
  by (simp add: step8_def rbm_high split: option.splits)

lemma blocked9: "reserveTooHigh i \<Longrightarrow> step9 i = (None, Some reserveBlockText)"
  by (simp add: step9_def rbm_high split: option.splits)

lemma blocked10: "reserveTooHigh i \<Longrightarrow> step10 i = (None, Some reserveBlockText)"
  by (simp add: step10_def rbm_high)

lemma blocked11: "reserveTooHigh i \<Longrightarrow> step11 i = (None, None, Some reserveBlockText)"
  by (simp add: step11_def rbm_high split: option.splits)

lemma blocked12: "reserveTooHigh i \<Longrightarrow> step12 i = (None, Some reserveBlockText)"
  by (simp add: step12_def rbm_high split: option.splits)

lemmas step_proj_defs =
  step5DesignGrainsPerRun_def step5Message_def step6CapacityPerFt3_def step6Message_def
  step7ResinFt3_def step7Message_def step8SaltLbsPerRegen_def step8Message_def
  step9BrineWaterGallons_def step9Message_def step10BedAreaFt2_def step10Message_def
  step11DiameterFt_def step11DiameterIn_def step11Message_def
  step12BackwashFlowGpm_def step12Message_def

subsection \<open>The concrete records, evaluated\<close>

lemma scenario1_fields [simp]:
  "hardnessValue scenario1 = Some 300" "hardnessUnits scenario1 = PpmAsCaCO3"
  "useCompensation scenario1 = False" "gallonsPerDay scenario1 = Some 10000"
  "daysBetweenRegen scenario1 = Some 2" "reservePercent scenario1 = Some 15"
  "saltDose scenario1 = Dose8" "overrideCapacity scenario1 = False"
  "overrideCapacityValue scenario1 = None" "saltDissolutionFactor scenario1 = Some 3"
  "peakFlowGpm scenario1 = Some 50" "serviceLoadingRate scenario1 = Some 7"
  "backwashRate scenario1 = Some 7"
  by (simp_all add: scenario1_def)

lemma scenario1_reserve_low [simp]: "\<not> reserveTooHigh scenario1"
  by (simp add: reserveTooHigh_def)

lemma scenario1_steps:
  "step1HardnessGpg scenario1 = Some (1000 / 57)"
  "step2DesignHardnessGpg scenario1 = Some (1000 / 57)"
  "step3GrainsPerDay scenario1 = Some (10000000 / 57)"
  "step4RequiredGrainsPerRun scenario1 = Some (20000000 / 57)"
  "step5 scenario1 = (Some (400000000 / 969), None)"
  "step6 scenario1 = (Some 22500, None)"
  "step7 scenario1 = (Some (160000 / 8721), None)"
  "step8 scenario1 = (Some (1280000 / 8721), None)"
  "step9 scenario1 = (Some (1280000 / 26163), None)"
  "step10 scenario1 = (Some (50 / 7), None)"
  "step11 scenario1 = (Some (2 * sqrt (50 / 7 / pi)), Some (2 * sqrt (50 / 7 / pi) * 12), None)"
  "step12 scenario1 = (Some 50, None)"
proof -
  show s1: "step1HardnessGpg scenario1 = Some (1000 / 57)"
    by (simp add: step1HardnessGpg_def)
  show s2: "step2DesignHardnessGpg scenario1 = Some (1000 / 57)"
    by (simp add: step2DesignHardnessGpg_def s1)
  show s3: "step3GrainsPerDay scenario1 = Some (10000000 / 57)"
    by (simp add: step3GrainsPerDay_def s2)
  show s4: "step4RequiredGrainsPerRun scenario1 = Some (20000000 / 57)"
    by (simp add: step4RequiredGrainsPerRun_def s3)
  show s5: "step5 scenario1 = (Some (400000000 / 969), None)"
    by (simp add: step5_def s4 rbm_low)
  show s6: "step6 scenario1 = (Some 22500, None)"
    by (simp add: step6_def rbm_low)
  show s7: "step7 scenario1 = (Some (160000 / 8721), None)"
    by (simp add: step7_def step5DesignGrainsPerRun_def step6CapacityPerFt3_def s5 s6)
  show s8: "step8 scenario1 = (Some (1280000 / 8721), None)"
    by (simp add: step8_def step7ResinFt3_def s7)
  show s9: "step9 scenario1 = (Some (1280000 / 26163), None)"
    by (simp add: step9_def step8SaltLbsPerRegen_def s8)
  show s10: "step10 scenario1 = (Some (50 / 7), None)"
    by (simp add: step10_def)
  show "step11 scenario1 =
      (Some (2 * sqrt (50 / 7 / pi)), Some (2 * sqrt (50 / 7 / pi) * 12), None)"
    by (simp add: step11_def step10BedAreaFt2_def s10)
  show "step12 scenario1 = (Some 50, None)"
    by (simp add: step12_def step10BedAreaFt2_def s10)
qed

lemma blankInputs_reserve_low [simp]: "\<not> reserveTooHigh blankInputs"
  by (simp add: reserveTooHigh_def blankInputs_def)

lemma blank_steps:
  "step1HardnessGpg blankInputs = None"
  "step2DesignHardnessGpg blankInputs = None"
  "step3GrainsPerDay blankInputs = None"
  "step4RequiredGrainsPerRun blankInputs = None"
  "step5 blankInputs = (None, None)"
  "step6 blankInputs = (Some 22500, None)"
  "step7 blankInputs = (None, Some ''Complete Steps 5 and 6 to calculate resin volume.'')"
  "step8 blankInputs = (None, Some ''Complete Step 7 to calculate salt per regeneration.'')"
  "step9 blankInputs = (None, Some ''Complete Step 8 to calculate brine refill water.'')"
  "step10 blankInputs = (None, Some ''Peak Flow Rate must be greater than 0.'')"
  "step11 blankInputs = (None, None, Some ''Peak Flow Rate must be greater than 0.'')"
  "step12 blankInputs = (None, Some ''Peak Flow Rate must be greater than 0.'')"
proof -
  show s1: "step1HardnessGpg blankInputs = None"
    by (simp add: step1HardnessGpg_def blankInputs_def)
  show s2: "step2DesignHardnessGpg blankInputs = None"
    by (simp add: step2DesignHardnessGpg_def s1)
  show s3: "step3GrainsPerDay blankInputs = None"
    by (simp add: step3GrainsPerDay_def s2)
  show s4: "step4RequiredGrainsPerRun blankInputs = None"
    by (simp add: step4RequiredGrainsPerRun_def s3)
  show s5: "step5 blankInputs = (None, None)"
    by (simp add: step5_def s4 rbm_low)
  show s6: "step6 blankInputs = (Some 22500, None)"
    by (simp add: step6_def rbm_low) (simp add: blankInputs_def)
  show s7: "step7 blankInputs = (None, Some ''Complete Steps 5 and 6 to calculate resin volume.'')"
    by (simp add: step7_def step5DesignGrainsPerRun_def s5)
  show s8: "step8 blankInputs = (None, Some ''Complete Step 7 to calculate salt per regeneration.'')"
    by (simp add: step8_def step7ResinFt3_def s7)
  show s9: "step9 blankInputs = (None, Some ''Complete Step 8 to calculate brine refill water.'')"
    by (simp add: step9_def step8SaltLbsPerRegen_def s8)
  show s10: "step10 blankInputs = (None, Some ''Peak Flow Rate must be greater than 0.'')"
    by (simp add: step10_def) (simp add: blankInputs_def)
  have t: "truthy (Some ''Peak Flow Rate must be greater than 0.'')"
    by (simp add: truthy_def)
  show "step11 blankInputs = (None, None, Some ''Peak Flow Rate must be greater than 0.'')"
    using t by (simp add: step11_def step10BedAreaFt2_def step10Message_def s10)
  show "step12 blankInputs = (None, Some ''Peak Flow Rate must be greater than 0.'')"
    using t by (simp add: step12_def step10BedAreaFt2_def step10Message_def s10)
qed

subsection \<open>Blocking by the reserve\<close>

text \<open>
  C1, as amended. When \<open>reservePercent\<close> parses to a number of 100 or more, every step from
  5 to 12 has the value \<^verbatim>\<open>null\<close> and carries the reserve-block message. Steps 10, 11
  and 12 are blocked with the others: each of their blocks starts from the reserve-block
  message and computes only when that message is absent.
\<close>

theorem reserve_block_covers_steps_5_to_12:
  assumes "reservePercent i = Some r" and "r \<ge> 100"
  shows "step5DesignGrainsPerRun i = None \<and> step5Message i = Some reserveBlockText \<and>
         step6CapacityPerFt3 i = None \<and> step6Message i = Some reserveBlockText \<and>
         step7ResinFt3 i = None \<and> step7Message i = Some reserveBlockText \<and>
         step8SaltLbsPerRegen i = None \<and> step8Message i = Some reserveBlockText \<and>
         step9BrineWaterGallons i = None \<and> step9Message i = Some reserveBlockText \<and>
         step10BedAreaFt2 i = None \<and> step10Message i = Some reserveBlockText \<and>
         step11DiameterFt i = None \<and> step11DiameterIn i = None \<and>
         step11Message i = Some reserveBlockText \<and>
         step12BackwashFlowGpm i = None \<and> step12Message i = Some reserveBlockText"
proof -
  have "reserveTooHigh i"
    using assms by (simp add: reserveTooHigh_def)
  then show ?thesis
    by (simp add: step_proj_defs blocked5 blocked6 blocked7 blocked8 blocked9 blocked10
        blocked11 blocked12)
qed

theorem reserve_block_covers_steps_5_to_12_witness:
  "reservePercent (scenario1\<lparr>reservePercent := Some 100\<rparr>) = Some 100 \<and> (100::real) \<ge> 100 \<and>
   step5DesignGrainsPerRun (scenario1\<lparr>reservePercent := Some 100\<rparr>) = None \<and>
   step9Message (scenario1\<lparr>reservePercent := Some 100\<rparr>) = Some reserveBlockText \<and>
   step10BedAreaFt2 (scenario1\<lparr>reservePercent := Some 100\<rparr>) = None \<and>
   step12Message (scenario1\<lparr>reservePercent := Some 100\<rparr>) = Some reserveBlockText"
proof -
  have h: "reservePercent (scenario1\<lparr>reservePercent := Some 100\<rparr>) = Some 100"
    "(100::real) \<ge> 100"
    by simp_all
  show ?thesis
    using reserve_block_covers_steps_5_to_12 [OF h] h by simp
qed

text \<open>
  C1 as stated fails: in scenario 1 step 10 is 50/7 with no message, and raising only the
  reserve to 100 turns it into \<^verbatim>\<open>null\<close> with the reserve-block message.
\<close>

theorem reserve_block_changes_step10_counterexample:
  "step10BedAreaFt2 scenario1 = Some (50 / 7) \<and> step10Message scenario1 = None \<and>
   reservePercent (scenario1\<lparr>reservePercent := Some 100\<rparr>) = Some 100 \<and>
   step10BedAreaFt2 (scenario1\<lparr>reservePercent := Some 100\<rparr>) = None \<and>
   step10Message (scenario1\<lparr>reservePercent := Some 100\<rparr>) = Some reserveBlockText"
  by (simp add: step10BedAreaFt2_def step10Message_def step10_def scenario1_def
      reserveBlockMessage_def reserveTooHigh_def)

subsection \<open>Propagation of null\<close>

text \<open>
  C4. A step whose upstream step has the value \<^verbatim>\<open>null\<close> has the value \<^verbatim>\<open>null\<close> itself:
  step 2 after step 1, step 3 after step 2, step 4 after step 3, step 5 after step 4, step 7
  after step 5 or step 6, step 8 after step 7, step 9 after step 8, and both diameters of
  step 11 and step 12 after step 10.
\<close>

theorem null_propagates_forward:
  "(step1HardnessGpg i = None \<longrightarrow> step2DesignHardnessGpg i = None) \<and>
   (step2DesignHardnessGpg i = None \<longrightarrow> step3GrainsPerDay i = None) \<and>
   (step3GrainsPerDay i = None \<longrightarrow> step4RequiredGrainsPerRun i = None) \<and>
   (step4RequiredGrainsPerRun i = None \<longrightarrow> step5DesignGrainsPerRun i = None) \<and>
   (step5DesignGrainsPerRun i = None \<or> step6CapacityPerFt3 i = None \<longrightarrow>
      step7ResinFt3 i = None) \<and>
   (step7ResinFt3 i = None \<longrightarrow> step8SaltLbsPerRegen i = None) \<and>
   (step8SaltLbsPerRegen i = None \<longrightarrow> step9BrineWaterGallons i = None) \<and>
   (step10BedAreaFt2 i = None \<longrightarrow>
      step11DiameterFt i = None \<and> step11DiameterIn i = None \<and>
      step12BackwashFlowGpm i = None)"
proof (intro conjI impI)
  assume "step1HardnessGpg i = None"
  then show "step2DesignHardnessGpg i = None"
    by (simp add: step2DesignHardnessGpg_def)
next
  assume "step2DesignHardnessGpg i = None"
  then show "step3GrainsPerDay i = None"
    by (simp add: step3GrainsPerDay_def)
next
  assume "step3GrainsPerDay i = None"
  then show "step4RequiredGrainsPerRun i = None"
    by (simp add: step4RequiredGrainsPerRun_def)
next
  assume "step4RequiredGrainsPerRun i = None"
  then show "step5DesignGrainsPerRun i = None"
    by (simp add: step5DesignGrainsPerRun_def step5_def)
next
  assume "step5DesignGrainsPerRun i = None \<or> step6CapacityPerFt3 i = None"
  then show "step7ResinFt3 i = None"
    by (auto simp: step7ResinFt3_def step7_def split: option.splits)
next
  assume "step7ResinFt3 i = None"
  then show "step8SaltLbsPerRegen i = None"
    by (simp add: step8SaltLbsPerRegen_def step8_def)
next
  assume "step8SaltLbsPerRegen i = None"
  then show "step9BrineWaterGallons i = None"
    by (simp add: step9BrineWaterGallons_def step9_def)
next
  assume a: "step10BedAreaFt2 i = None"
  then show "step11DiameterFt i = None"
    by (simp add: step11DiameterFt_def step11_def)
  from a show "step11DiameterIn i = None"
    by (simp add: step11DiameterIn_def step11_def)
  from a show "step12BackwashFlowGpm i = None"
    by (simp add: step12BackwashFlowGpm_def step12_def)
qed

theorem null_propagates_forward_witness:
  "step1HardnessGpg blankInputs = None \<and> step2DesignHardnessGpg blankInputs = None \<and>
   step3GrainsPerDay blankInputs = None \<and> step4RequiredGrainsPerRun blankInputs = None \<and>
   step5DesignGrainsPerRun blankInputs = None \<and> step7ResinFt3 blankInputs = None \<and>
   step8SaltLbsPerRegen blankInputs = None \<and> step9BrineWaterGallons blankInputs = None \<and>
   step10BedAreaFt2 blankInputs = None \<and> step11DiameterFt blankInputs = None \<and>
   step11DiameterIn blankInputs = None \<and> step12BackwashFlowGpm blankInputs = None"
  using null_propagates_forward [of blankInputs] blank_steps(1)
  by (simp add: step10BedAreaFt2_def blank_steps(10))

subsection \<open>A value excludes a message\<close>

text \<open>
  C9. For each of the steps 5 to 12, whenever the step's value is not \<^verbatim>\<open>null\<close> its message
  is \<^verbatim>\<open>null\<close>.
\<close>

theorem value_excludes_message:
  "(step5DesignGrainsPerRun i \<noteq> None \<longrightarrow> step5Message i = None) \<and>
   (step6CapacityPerFt3 i \<noteq> None \<longrightarrow> step6Message i = None) \<and>
   (step7ResinFt3 i \<noteq> None \<longrightarrow> step7Message i = None) \<and>
   (step8SaltLbsPerRegen i \<noteq> None \<longrightarrow> step8Message i = None) \<and>
   (step9BrineWaterGallons i \<noteq> None \<longrightarrow> step9Message i = None) \<and>
   (step10BedAreaFt2 i \<noteq> None \<longrightarrow> step10Message i = None) \<and>
   (step11DiameterFt i \<noteq> None \<or> step11DiameterIn i \<noteq> None \<longrightarrow> step11Message i = None) \<and>
   (step12BackwashFlowGpm i \<noteq> None \<longrightarrow> step12Message i = None)"
proof (intro conjI impI)
  assume "step5DesignGrainsPerRun i \<noteq> None"
  then show "step5Message i = None"
    by (auto simp: step5DesignGrainsPerRun_def step5Message_def step5_def rbm_low
        split: option.splits if_splits)
next
  assume "step6CapacityPerFt3 i \<noteq> None"
  then show "step6Message i = None"
    by (auto simp: step6CapacityPerFt3_def step6Message_def step6_def rbm_low
        split: option.splits if_splits)
next
  assume "step7ResinFt3 i \<noteq> None"
  then show "step7Message i = None"
    by (auto simp: step7ResinFt3_def step7Message_def step7_def split: option.splits if_splits)
next
  assume "step8SaltLbsPerRegen i \<noteq> None"
  then show "step8Message i = None"
    by (auto simp: step8SaltLbsPerRegen_def step8Message_def step8_def
        split: option.splits if_splits)
next
  assume "step9BrineWaterGallons i \<noteq> None"
  then show "step9Message i = None"
    by (auto simp: step9BrineWaterGallons_def step9Message_def step9_def
        split: option.splits if_splits)
next
  assume "step10BedAreaFt2 i \<noteq> None"
  then show "step10Message i = None"
    by (auto simp: step10BedAreaFt2_def step10Message_def step10_def
        split: option.splits if_splits)
next
  assume "step11DiameterFt i \<noteq> None \<or> step11DiameterIn i \<noteq> None"
  then show "step11Message i = None"
    by (auto simp: step11DiameterFt_def step11DiameterIn_def step11Message_def step11_def
        split: option.splits if_splits)
next
  assume "step12BackwashFlowGpm i \<noteq> None"
  then show "step12Message i = None"
    by (auto simp: step12BackwashFlowGpm_def step12Message_def step12_def
        split: option.splits if_splits)
qed

theorem value_excludes_message_witness:
  "step5DesignGrainsPerRun scenario1 \<noteq> None \<and> step5Message scenario1 = None \<and>
   step6CapacityPerFt3 scenario1 \<noteq> None \<and> step6Message scenario1 = None \<and>
   step7ResinFt3 scenario1 \<noteq> None \<and> step7Message scenario1 = None \<and>
   step8SaltLbsPerRegen scenario1 \<noteq> None \<and> step8Message scenario1 = None \<and>
   step9BrineWaterGallons scenario1 \<noteq> None \<and> step9Message scenario1 = None \<and>
   step10BedAreaFt2 scenario1 \<noteq> None \<and> step10Message scenario1 = None \<and>
   step11DiameterFt scenario1 \<noteq> None \<and> step11Message scenario1 = None \<and>
   step12BackwashFlowGpm scenario1 \<noteq> None \<and> step12Message scenario1 = None"
proof -
  have v: "step5DesignGrainsPerRun scenario1 \<noteq> None" "step6CapacityPerFt3 scenario1 \<noteq> None"
    "step7ResinFt3 scenario1 \<noteq> None" "step8SaltLbsPerRegen scenario1 \<noteq> None"
    "step9BrineWaterGallons scenario1 \<noteq> None" "step10BedAreaFt2 scenario1 \<noteq> None"
    "step11DiameterFt scenario1 \<noteq> None" "step12BackwashFlowGpm scenario1 \<noteq> None"
    by (simp_all add: step_proj_defs scenario1_steps)
  show ?thesis
    using value_excludes_message [of scenario1] v by blast
qed

subsection \<open>Blocking by the service loading rate\<close>

text \<open>
  C5, as amended. When \<open>serviceLoadingRate\<close> parses to a number that is not positive,
  \<open>peakFlowGpm\<close> is positive and the reserve is not 100 or more, steps 10, 11 and 12 have
  the value \<^verbatim>\<open>null\<close>, step 10 carries the service-loading message, and steps 11 and 12
  carry step 10's message unchanged. The message is the text of \<open>serviceLoadingError\<close>.
\<close>

theorem service_loading_blocks_steps_10_to_12:
  assumes "serviceLoadingRate i = Some s" and "s \<le> 0" and "isPositive (peakFlowGpm i)"
    and "\<not> reserveTooHigh i"
  shows "step10BedAreaFt2 i = None \<and> step10Message i = Some serviceLoadingText \<and>
         step11DiameterFt i = None \<and> step11DiameterIn i = None \<and>
         step11Message i = step10Message i \<and>
         step12BackwashFlowGpm i = None \<and> step12Message i = step10Message i \<and>
         serviceLoadingError i = Some serviceLoadingText"
proof -
  have s10: "step10 i = (None, Some serviceLoadingText)"
    using assms
    by (auto simp: step10_def isPositive_def serviceLoadingText_def split: option.splits)
  have s11: "step11 i = (None, None, Some serviceLoadingText)"
    using assms(4) by (simp add: step11_def step10BedAreaFt2_def step10Message_def s10)
  have s12: "step12 i = (None, Some serviceLoadingText)"
    using assms(4) by (simp add: step12_def step10BedAreaFt2_def step10Message_def s10)
  have e: "serviceLoadingError i = Some serviceLoadingText"
    using assms(1,2) by (simp add: serviceLoadingError_def)
  show ?thesis
    by (simp add: step_proj_defs s10 s11 s12 e)
qed

theorem service_loading_blocks_steps_10_to_12_witness:
  "serviceLoadingRate scenario3 = Some 0 \<and> isPositive (peakFlowGpm scenario3) \<and>
   \<not> reserveTooHigh scenario3 \<and>
   step10BedAreaFt2 scenario3 = None \<and> step10Message scenario3 = Some serviceLoadingText \<and>
   step11DiameterFt scenario3 = None \<and> step11Message scenario3 = Some serviceLoadingText \<and>
   step12BackwashFlowGpm scenario3 = None \<and> step12Message scenario3 = Some serviceLoadingText"
proof -
  have h: "serviceLoadingRate scenario3 = Some 0" "(0::real) \<le> 0"
    "isPositive (peakFlowGpm scenario3)" "\<not> reserveTooHigh scenario3"
    by (simp_all add: scenario3_def reserveTooHigh_def)
  show ?thesis
    using service_loading_blocks_steps_10_to_12 [OF h] h by simp
qed

text \<open>
  C5 as stated fails when the reserve is 100 or more: in scenario 3 with a reserve of 100,
  step 10 carries the reserve-block message, not the service-loading message.
\<close>

theorem service_loading_under_reserve_block_counterexample:
  "serviceLoadingRate (scenario3\<lparr>reservePercent := Some 100\<rparr>) = Some 0 \<and>
   isPositive (peakFlowGpm (scenario3\<lparr>reservePercent := Some 100\<rparr>)) \<and>
   step10Message (scenario3\<lparr>reservePercent := Some 100\<rparr>) = Some reserveBlockText \<and>
   step10Message (scenario3\<lparr>reservePercent := Some 100\<rparr>) \<noteq> Some serviceLoadingText"
  by (simp add: step10Message_def step10_def scenario3_def scenario1_def truthy_def
      reserveBlockMessage_def reserveTooHigh_def reserveBlockText_def serviceLoadingText_def)

subsection \<open>Step 6\<close>

text \<open>
  C6. With a reserve that is not 100 or more: when \<open>overrideCapacity\<close> is off, step 6 is the
  table value of the chosen salt dose (20000 for 6, 22500 for 8, 25000 for 10, 27500 for 12,
  30000 for 15); when it is on, step 6 is \<open>overrideCapacityValue\<close> if that is positive, and
  otherwise \<^verbatim>\<open>null\<close> with a blocking message.
\<close>

theorem step6_table_or_override:
  assumes "\<not> reserveTooHigh i"
  shows "(\<not> overrideCapacity i \<longrightarrow>
            step6CapacityPerFt3 i = Some (CAPACITY_BY_SALT_DOSE (saltDose i)) \<and>
            step6CapacityPerFt3 i =
              Some (case saltDose i of Dose6 \<Rightarrow> 20000 | Dose8 \<Rightarrow> 22500 | Dose10 \<Rightarrow> 25000
                    | Dose12 \<Rightarrow> 27500 | Dose15 \<Rightarrow> 30000)) \<and>
         (overrideCapacity i \<and> isPositive (overrideCapacityValue i) \<longrightarrow>
            step6CapacityPerFt3 i = overrideCapacityValue i) \<and>
         (overrideCapacity i \<and> \<not> isPositive (overrideCapacityValue i) \<longrightarrow>
            step6CapacityPerFt3 i = None \<and>
            step6Message i = Some ''Override capacity per cubic foot must be greater than 0.'')"
  using assms
  by (cases "saltDose i")
    (auto simp: step6CapacityPerFt3_def step6Message_def step6_def isPositive_def rbm_low
      split: option.splits)

theorem step6_table_or_override_witness:
  "\<not> reserveTooHigh scenario1 \<and> \<not> overrideCapacity scenario1 \<and>
   step6CapacityPerFt3 scenario1 = Some 22500 \<and>
   step6CapacityPerFt3 (scenario1\<lparr>overrideCapacity := True, overrideCapacityValue := Some 24000\<rparr>)
     = Some 24000 \<and>
   step6CapacityPerFt3 (scenario1\<lparr>overrideCapacity := True, overrideCapacityValue := Some 0\<rparr>)
     = None \<and>
   step6Message (scenario1\<lparr>overrideCapacity := True, overrideCapacityValue := Some 0\<rparr>)
     = Some ''Override capacity per cubic foot must be greater than 0.''"
proof -
  have low: "\<not> reserveTooHigh scenario1"
    "\<not> reserveTooHigh (scenario1\<lparr>overrideCapacity := True, overrideCapacityValue := Some 24000\<rparr>)"
    "\<not> reserveTooHigh (scenario1\<lparr>overrideCapacity := True, overrideCapacityValue := Some 0\<rparr>)"
    by (simp_all add: reserveTooHigh_def)
  show ?thesis
    using step6_table_or_override [OF low(1)] step6_table_or_override [OF low(2)]
      step6_table_or_override [OF low(3)] low(1)
    by simp
qed

subsection \<open>Missing inputs\<close>




subsection \<open>Divisions and the square root\<close>



subsection \<open>Bounds on \<open>pi\<close>\<close>

text \<open>
  The diameter of step 11 needs \<open>pi\<close> to three decimals. The cosine is positive at 1.5705
  and negative at 1.571, by its Maclaurin polynomial of degree 10 with the remainder of
  order 12, so \<open>pi / 2\<close> lies between the two.
\<close>

lemma sum_lessThan_12:
  "(\<Sum>m<12. f m) = f 0 + f 1 + f 2 + f 3 + f 4 + f 5 + f 6 + f 7 + f 8 + f 9 + f 10 + f 11"
  for f :: "nat \<Rightarrow> real"
  by (simp add: eval_nat_numeral)

lemma cos_coeff_values:
  "cos_coeff (Suc 0) = 0" "cos_coeff 1 = 0" "cos_coeff 2 = - 1 / 2" "cos_coeff 3 = 0"
  "cos_coeff 4 = 1 / 24" "cos_coeff 5 = 0" "cos_coeff 6 = - 1 / 720" "cos_coeff 7 = 0"
  "cos_coeff 8 = 1 / 40320" "cos_coeff 9 = 0" "cos_coeff 10 = - 1 / 3628800"
  "cos_coeff 11 = 0"
  by (simp_all add: cos_coeff_def fact_numeral)

lemma cos_poly12: "(\<Sum>m<12. cos_coeff m * x ^ m) = cosPoly x"
  by (simp add: sum_lessThan_12 cos_coeff_values cosPoly_def)

lemma cos_Taylor12:
  fixes x :: real
  assumes "0 < x"
  shows "\<bar>cos x - cosPoly x\<bar> \<le> x ^ 12 / 479001600"
proof -
  let ?c = "\<lambda>t. cos (t + 1 / 2 * real (12::nat) * pi)"
  obtain t where t: "cos x = (\<Sum>m<12. cos_coeff m * x ^ m) + (?c t / fact 12) * x ^ 12"
    using Maclaurin_cos_expansion2 [of x 12] assms by auto
  have f: "fact 12 = (479001600::real)"
    by (simp add: eval_nat_numeral)
  have "\<bar>cos x - (\<Sum>m<12. cos_coeff m * x ^ m)\<bar> = \<bar>?c t\<bar> * (x ^ 12 / 479001600)"
    using assms by (simp add: t f abs_mult)
  also have "\<dots> \<le> 1 * (x ^ 12 / 479001600)"
    using assms by (intro mult_right_mono abs_cos_le_one) simp
  finally show ?thesis
    by (simp add: cos_poly12)
qed

lemma cos_pos_lower: "0 < cos (3141 / 2000 :: real)"
proof -
  let ?x = "3141 / 2000 :: real"
  have "\<bar>cos ?x - cosPoly ?x\<bar> \<le> ?x ^ 12 / 479001600"
    by (rule cos_Taylor12) simp
  then have "cosPoly ?x - ?x ^ 12 / 479001600 \<le> cos ?x"
    by linarith
  moreover have "0 < cosPoly ?x - ?x ^ 12 / 479001600"
    by (simp add: cosPoly_def power_divide)
  ultimately show ?thesis
    by linarith
qed

lemma cos_neg_upper: "cos (1571 / 1000 :: real) < 0"
proof -
  let ?x = "1571 / 1000 :: real"
  have "\<bar>cos ?x - cosPoly ?x\<bar> \<le> ?x ^ 12 / 479001600"
    by (rule cos_Taylor12) simp
  then have "cos ?x \<le> cosPoly ?x + ?x ^ 12 / 479001600"
    by linarith
  moreover have "cosPoly ?x + ?x ^ 12 / 479001600 < 0"
    by (simp add: cosPoly_def power_divide)
  ultimately show ?thesis
    by linarith
qed

lemma pi_lower: "3141 / 1000 < pi"
proof (rule ccontr)
  assume "\<not> 3141 / 1000 < pi"
  then have "pi / 2 \<le> 3141 / 2000"
    by simp
  moreover have "(3141 / 2000 :: real) \<le> pi"
    using pi_ge_two by simp
  ultimately have "cos (3141 / 2000) \<le> cos (pi / 2)"
    by (intro cos_monotone_0_pi_le) simp_all
  then show False
    using cos_pos_lower by simp
qed

lemma pi_upper: "pi < 3142 / 1000"
proof (rule ccontr)
  assume "\<not> pi < 3142 / 1000"
  then have "1571 / 1000 \<le> pi / 2"
    by simp
  then have "0 \<le> cos (1571 / 1000 :: real)"
    by (intro cos_ge_zero) simp_all
  then show False
    using cos_neg_upper by simp
qed

subsection \<open>Scenario 1\<close>

lemma scenario1_root_bounds:
  "36185 / 24000 \<le> sqrt (50 / 7 / pi)" "sqrt (50 / 7 / pi) \<le> 36195 / 24000"
proof -
  have l: "(36185 / 24000)\<^sup>2 \<le> 50 / 7 / pi"
  proof -
    have "(36185 / 24000)\<^sup>2 * pi \<le> (36185 / 24000)\<^sup>2 * (3142 / 1000)"
      using pi_upper by (intro mult_left_mono) simp_all
    also have "\<dots> \<le> 50 / 7" by (simp add: power2_eq_square)
    finally show ?thesis by (simp add: pos_le_divide_eq)
  qed
  then show "36185 / 24000 \<le> sqrt (50 / 7 / pi)"
    by (rule real_le_rsqrt)
  have u: "50 / 7 / pi \<le> (36195 / 24000)\<^sup>2"
  proof -
    have "50 / 7 \<le> (36195 / 24000)\<^sup>2 * (3141 / 1000 :: real)" by (simp add: power2_eq_square)
    also have "\<dots> \<le> (36195 / 24000)\<^sup>2 * pi"
      using pi_lower by (intro mult_left_mono) simp_all
    finally show ?thesis by (simp add: pos_divide_le_eq)
  qed
  then show "sqrt (50 / 7 / pi) \<le> 36195 / 24000"
    by (intro real_le_lsqrt) simp_all
qed

text \<open>
  C3, as amended. Scenario 1 gives step 1 and step 2 as 17.54, step 3 as 175,439, step 4 as
  350,877, step 5 as 412,797, step 6 as exactly 22,500, step 7 as 18.35, step 8 as 146.77,
  step 9 as 48.92, step 10 as 7.14, step 11 as 3.02 ft and 36.19 in, and step 12 as 50.0,
  each rounded to the digits shown.
\<close>

theorem scenario1_values:
  "approximately (step1HardnessGpg scenario1) 17.54 0.005 \<and>
   approximately (step2DesignHardnessGpg scenario1) 17.54 0.005 \<and>
   approximately (step3GrainsPerDay scenario1) 175439 0.5 \<and>
   approximately (step4RequiredGrainsPerRun scenario1) 350877 0.5 \<and>
   approximately (step5DesignGrainsPerRun scenario1) 412797 0.5 \<and>
   step6CapacityPerFt3 scenario1 = Some 22500 \<and>
   approximately (step7ResinFt3 scenario1) 18.35 0.005 \<and>
   approximately (step8SaltLbsPerRegen scenario1) 146.77 0.005 \<and>
   approximately (step9BrineWaterGallons scenario1) 48.92 0.005 \<and>
   approximately (step10BedAreaFt2 scenario1) 7.14 0.005 \<and>
   approximately (step11DiameterFt scenario1) 3.02 0.005 \<and>
   approximately (step11DiameterIn scenario1) 36.19 0.005 \<and>
   approximately (step12BackwashFlowGpm scenario1) 50.0 0.05"
proof -
  have "\<bar>2 * sqrt (50 / 7 / pi) - 302 / 100\<bar> \<le> 5 / 1000"
    using scenario1_root_bounds by linarith
  then have ft: "approximately (step11DiameterFt scenario1) 3.02 0.005"
    by (simp add: approximately_def step11DiameterFt_def scenario1_steps)
  have "\<bar>2 * sqrt (50 / 7 / pi) * 12 - 3619 / 100\<bar> \<le> 5 / 1000"
    using scenario1_root_bounds by linarith
  then have inch: "approximately (step11DiameterIn scenario1) 36.19 0.005"
    by (simp add: approximately_def step11DiameterIn_def scenario1_steps)
  show ?thesis
    using ft inch
    by (simp add: approximately_def step_proj_defs scenario1_steps)
qed

text \<open>
  C3 as stated fails in four values: step 5 is 400000000/969, about 412,796.70 and not
  412,808; step 8 is not 146.78, step 9 is not 48.93 and the diameter in inches is not 36.21
  at the precision shown.
\<close>

theorem scenario1_stated_values_counterexample:
  "step5DesignGrainsPerRun scenario1 = Some (400000000 / 969) \<and>
   \<not> approximately (step5DesignGrainsPerRun scenario1) 412808 0.5 \<and>
   \<not> approximately (step8SaltLbsPerRegen scenario1) 146.78 0.005 \<and>
   \<not> approximately (step9BrineWaterGallons scenario1) 48.93 0.005 \<and>
   \<not> approximately (step11DiameterIn scenario1) 36.21 0.005"
proof -
  have "\<not> \<bar>2 * sqrt (50 / 7 / pi) * 12 - 3621 / 100\<bar> \<le> 5 / 1000"
    using scenario1_root_bounds by linarith
  then have "\<not> approximately (step11DiameterIn scenario1) 36.21 0.005"
    by (simp add: approximately_def step11DiameterIn_def scenario1_steps)
  then show ?thesis
    by (simp add: approximately_def step_proj_defs scenario1_steps)
qed

subsection \<open>Exact arithmetic\<close>

text \<open>
  The facts of this subsection are about the formulas over the reals, not about the doubles
  the program computes. Over the reals every value that a step produces is positive, and of
  two reserves below 100 the larger gives the strictly larger value in steps 5, 7, 8 and 9.
  In binary64 neither holds as it stands: a hardness of 5e-324 ppm is positive and its
  quotient by 17.1 rounds to 0, and the reserves 0 and 1e-20 both make the divisor of
  step 5 equal to 1.
\<close>

lemma step1_pos: "step1HardnessGpg i = Some v \<Longrightarrow> 0 < v"
  by (auto simp: step1HardnessGpg_def isPositive_def split: option.splits if_splits)

lemma compensation_nonneg: "0 \<le> ironPpm i + manganesePpm i"
  by (simp add: ironPpm_def manganesePpm_def)

lemma step2_pos: "step2DesignHardnessGpg i = Some v \<Longrightarrow> 0 < v"
  using compensation_nonneg [of i]
  by (auto simp: step2DesignHardnessGpg_def split: option.splits if_splits dest!: step1_pos)

lemma step3_pos: "step3GrainsPerDay i = Some v \<Longrightarrow> 0 < v"
  by (auto simp: step3GrainsPerDay_def isPositive_def split: option.splits if_splits dest!: step2_pos)

lemma step4_pos: "step4RequiredGrainsPerRun i = Some v \<Longrightarrow> 0 < v"
  by (auto simp: step4RequiredGrainsPerRun_def isPositive_def split: option.splits if_splits dest!: step3_pos)

lemma step5_pos: "step5DesignGrainsPerRun i = Some v \<Longrightarrow> 0 < v"
  by (auto simp: step5DesignGrainsPerRun_def step5_def reserveTooHigh_def
      split: option.splits if_splits dest!: step4_pos)

lemma step6_pos: "step6CapacityPerFt3 i = Some v \<Longrightarrow> 0 < v"
  by (cases "saltDose i")
    (auto simp: step6CapacityPerFt3_def step6_def isPositive_def split: option.splits if_splits)

lemma step7_pos: "step7ResinFt3 i = Some v \<Longrightarrow> 0 < v"
  by (auto simp: step7ResinFt3_def step7_def split: option.splits if_splits
      dest!: step5_pos step6_pos)

lemma doseValue_pos: "0 < doseValue d"
  by (cases d) simp_all

lemma step8_pos: "step8SaltLbsPerRegen i = Some v \<Longrightarrow> 0 < v"
  using doseValue_pos [of "saltDose i"]
  by (auto simp: step8SaltLbsPerRegen_def step8_def split: option.splits if_splits dest!: step7_pos)

lemma step9_pos: "step9BrineWaterGallons i = Some v \<Longrightarrow> 0 < v"
  by (auto simp: step9BrineWaterGallons_def step9_def isPositive_def
      split: option.splits if_splits dest!: step8_pos)

lemma step10_pos: "step10BedAreaFt2 i = Some v \<Longrightarrow> 0 < v"
  by (auto simp: step10BedAreaFt2_def step10_def isPositive_def split: option.splits if_splits)

lemma step11_pos:
  "step11DiameterFt i = Some v \<Longrightarrow> 0 < v" "step11DiameterIn i = Some w \<Longrightarrow> 0 < w"
  by (auto simp: step11DiameterFt_def step11DiameterIn_def step11_def
      split: option.splits if_splits dest!: step10_pos)

lemma step12_pos: "step12BackwashFlowGpm i = Some v \<Longrightarrow> 0 < v"
  by (auto simp: step12BackwashFlowGpm_def step12_def isPositive_def
      split: option.splits if_splits dest!: step10_pos)

lemma step1_reserve_update:
  "step1HardnessGpg (i\<lparr>reservePercent := r\<rparr>) = step1HardnessGpg i"
  by (simp add: step1HardnessGpg_def split: option.splits)

lemma step2_reserve_update:
  "step2DesignHardnessGpg (i\<lparr>reservePercent := r\<rparr>) = step2DesignHardnessGpg i"
  by (simp add: step2DesignHardnessGpg_def step1_reserve_update ironPpm_def manganesePpm_def
      split: option.splits)

lemma step3_reserve_update:
  "step3GrainsPerDay (i\<lparr>reservePercent := r\<rparr>) = step3GrainsPerDay i"
  by (simp add: step3GrainsPerDay_def step2_reserve_update)

lemma step4_reserve_update [simp]:
  "step4RequiredGrainsPerRun (i\<lparr>reservePercent := r\<rparr>) = step4RequiredGrainsPerRun i"
  by (simp add: step4RequiredGrainsPerRun_def step3_reserve_update)

lemma step5_reserve_value:
  assumes "step4RequiredGrainsPerRun i = Some s4" and "0 \<le> r" and "r < 100"
  shows "step5DesignGrainsPerRun (i\<lparr>reservePercent := Some r\<rparr>) = Some (s4 / (1 - r / 100))"
  using assms
  by (simp add: step5DesignGrainsPerRun_def step5_def reserveBlockMessage_def reserveTooHigh_def)

lemma step6_reserve_low:
  assumes "r < 100"
  shows "step6CapacityPerFt3 (i\<lparr>reservePercent := Some r\<rparr>) =
         (if overrideCapacity i
          then (if isPositive (overrideCapacityValue i) then overrideCapacityValue i else None)
          else Some (CAPACITY_BY_SALT_DOSE (saltDose i)))"
  using assms
  by (auto simp: step6CapacityPerFt3_def step6_def reserveBlockMessage_def reserveTooHigh_def
      isPositive_def split: option.splits)

lemma exact_reserve_monotone:
  assumes s4: "step4RequiredGrainsPerRun i = Some s4"
    and r: "0 \<le> r1" "r1 < r2" "r2 < 100"
  shows "\<exists>a b. step5DesignGrainsPerRun (i\<lparr>reservePercent := Some r1\<rparr>) = Some a \<and>
               step5DesignGrainsPerRun (i\<lparr>reservePercent := Some r2\<rparr>) = Some b \<and> a < b"
    and "step7ResinFt3 (i\<lparr>reservePercent := Some r1\<rparr>) = Some a7 \<Longrightarrow>
         step7ResinFt3 (i\<lparr>reservePercent := Some r2\<rparr>) = Some b7 \<Longrightarrow> a7 < b7"
    and "step8SaltLbsPerRegen (i\<lparr>reservePercent := Some r1\<rparr>) = Some a8 \<Longrightarrow>
         step8SaltLbsPerRegen (i\<lparr>reservePercent := Some r2\<rparr>) = Some b8 \<Longrightarrow> a8 < b8"
    and "step9BrineWaterGallons (i\<lparr>reservePercent := Some r1\<rparr>) = Some a9 \<Longrightarrow>
         step9BrineWaterGallons (i\<lparr>reservePercent := Some r2\<rparr>) = Some b9 \<Longrightarrow> a9 < b9"
proof -
  let ?i1 = "i\<lparr>reservePercent := Some r1\<rparr>" and ?i2 = "i\<lparr>reservePercent := Some r2\<rparr>"
  have pos: "0 < s4" using s4 by (rule step4_pos)
  have v1: "step5DesignGrainsPerRun ?i1 = Some (s4 / (1 - r1 / 100))"
    using s4 r by (intro step5_reserve_value) simp_all
  have v2: "step5DesignGrainsPerRun ?i2 = Some (s4 / (1 - r2 / 100))"
    using s4 r by (intro step5_reserve_value) simp_all
  have lt5: "s4 / (1 - r1 / 100) < s4 / (1 - r2 / 100)"
    using pos r by (intro divide_strict_left_mono mult_pos_pos) simp_all
  show "\<exists>a b. step5DesignGrainsPerRun ?i1 = Some a \<and> step5DesignGrainsPerRun ?i2 = Some b \<and> a < b"
    using v1 v2 lt5 by blast
  have s6: "step6CapacityPerFt3 ?i1 = step6CapacityPerFt3 ?i2"
    using r by (simp add: step6_reserve_low)
  have lt7: "a < b" if "step7ResinFt3 ?i1 = Some a" "step7ResinFt3 ?i2 = Some b" for a b
  proof -
    from that(1) obtain c where c: "step6CapacityPerFt3 ?i1 = Some c" "a = s4 / (1 - r1 / 100) / c"
      using v1 by (auto simp: step7ResinFt3_def step7_def split: option.splits if_splits)
    from that(2) c(1) s6 have b: "b = s4 / (1 - r2 / 100) / c"
      using v2 by (auto simp: step7ResinFt3_def step7_def split: option.splits if_splits)
    have "0 < c" using c(1) by (rule step6_pos)
    with lt5 have "s4 / (1 - r1 / 100) / c < s4 / (1 - r2 / 100) / c"
      by (rule divide_strict_right_mono)
    then show ?thesis by (simp only: c(2) b)
  qed
  have lt8: "a < b" if "step8SaltLbsPerRegen ?i1 = Some a" "step8SaltLbsPerRegen ?i2 = Some b" for a b
  proof -
    from that(1) obtain x where x: "step7ResinFt3 ?i1 = Some x" "a = x * doseValue (saltDose i)"
      by (auto simp: step8SaltLbsPerRegen_def step8_def split: option.splits if_splits)
    from that(2) obtain y where y: "step7ResinFt3 ?i2 = Some y" "b = y * doseValue (saltDose i)"
      by (auto simp: step8SaltLbsPerRegen_def step8_def split: option.splits if_splits)
    show ?thesis using lt7 [OF x(1) y(1)] x(2) y(2) doseValue_pos [of "saltDose i"] by simp
  qed
  have lt9: "a < b" if "step9BrineWaterGallons ?i1 = Some a" "step9BrineWaterGallons ?i2 = Some b" for a b
  proof -
    from that(1) obtain x f where x: "step8SaltLbsPerRegen ?i1 = Some x"
      "saltDissolutionFactor i = Some f" "0 < f" "a = x / f"
      by (auto simp: step9BrineWaterGallons_def step9_def isPositive_def split: option.splits if_splits)
    from that(2) x(2) obtain y where y: "step8SaltLbsPerRegen ?i2 = Some y" "b = y / f"
      by (auto simp: step9BrineWaterGallons_def step9_def isPositive_def split: option.splits if_splits)
    have "x / f < y / f"
      using lt8 [OF x(1) y(1)] x(3) by (rule divide_strict_right_mono)
    then show ?thesis by (simp only: x(4) y(2))
  qed
  show "step7ResinFt3 ?i1 = Some a7 \<Longrightarrow> step7ResinFt3 ?i2 = Some b7 \<Longrightarrow> a7 < b7"
    by (rule lt7)
  show "step8SaltLbsPerRegen ?i1 = Some a8 \<Longrightarrow> step8SaltLbsPerRegen ?i2 = Some b8 \<Longrightarrow> a8 < b8"
    by (rule lt8)
  show "step9BrineWaterGallons ?i1 = Some a9 \<Longrightarrow> step9BrineWaterGallons ?i2 = Some b9 \<Longrightarrow> a9 < b9"
    by (rule lt9)
qed

end
